theory Spec2Isabelle
  imports Complex_Main "HOL-Library.Product_Lexorder"
begin

section \<open>Data model of periodic\_backtest.py\<close>

text \<open>
  The exceptions the module can raise.  Every \<open>raise\<close> of the interpreter or of pandas
  is a value \<open>Inl e\<close> of a result type \<open>py_error + 'a\<close>.
\<close>

datatype py_error = IndexError | AttributeError | TypeError | KeyError | ZeroDivisionError

text \<open>
  A cell of a raw row or a field of a \<open>Trade\<close>.  \<open>PyNone\<close> is Python's \<open>None\<close> (the
  default of the optional dataclass fields), \<open>NaN\<close> is the missing value of a float
  column (\<open>NaT\<close> for a time column), \<open>Val x\<close> a present value.  Finite floats are modelled
  as exact rationals: the rounding of binary64 arithmetic is not part of the model.
\<close>

datatype 'a cell = PyNone | NaN | Val 'a

text \<open>
  A pandas \<open>Timestamp\<close>, by its calendar fields: the year, the month (1..12), the day of
  the month, and the time of day in nanoseconds since midnight.
\<close>

record timestamp =
  year :: int
  month :: nat
  day :: nat
  time_ns :: nat

text \<open>\<open>class Type\<close>: the two direction constants \<open>'long'\<close> and \<open>'short'\<close>.\<close>

datatype Type = LONG | SHORT

text \<open>\<open>@dataclass class Trade\<close>, field by field, in the order of the source.\<close>

record Trade =
  type :: Type
  entry_date :: timestamp
  entry_price :: "rat cell"
  contract :: "rat cell"
  entry_signal :: "string option"
  exit_date :: "timestamp cell"
  exit_price :: "rat cell"
  exit_signal :: "string option"
  profit :: "rat cell"
  profit_percent :: "rat cell"
  draw_down :: "rat cell"
  draw_down_percent :: "rat cell"
  run_up :: "rat cell"
  run_up_percent :: "rat cell"
  cum_profit :: "rat cell"
  cum_profit_percent :: "rat cell"

text \<open>
  A row of the exported trade list, one field per column the code reads:
  \<open>"Trade #"\<close>, \<open>"Type"\<close>, \<open>"Signal"\<close>, \<open>"Date/Time"\<close>, \<open>"Price"\<close>, \<open>"Contracts"\<close>,
  \<open>"Profit USDT"\<close>, \<open>"Profit %"\<close>, \<open>"Cum. Profit USDT"\<close>, \<open>"Cum. Profit %"\<close>,
  \<open>"Run-up USDT"\<close>, \<open>"Run-up %"\<close>, \<open>"Drawdown USDT"\<close>, \<open>"Drawdown %"\<close>.
  The \<open>"Date/Time"\<close> field holds the instant that \<open>pd.to_datetime\<close> reads from the text.
\<close>

record row =
  Trade_no :: int
  Type_col :: string
  Signal :: "string option"
  Date_Time :: timestamp
  Price :: "rat cell"
  Contracts :: "rat cell"
  Profit_USDT :: "rat cell"
  Profit_pct :: "rat cell"
  Cum_Profit_USDT :: "rat cell"
  Cum_Profit_pct :: "rat cell"
  Run_up_USDT :: "rat cell"
  Run_up_pct :: "rat cell"
  Drawdown_USDT :: "rat cell"
  Drawdown_pct :: "rat cell"

section \<open>Python and pandas primitives used by the Trade Reducer\<close>

text \<open>\<open>df.iloc[i]\<close> for \<open>i \<ge> 0\<close>: the row at position \<open>i\<close>, IndexError out of bounds.\<close>

definition iloc :: "'a list \<Rightarrow> nat \<Rightarrow> py_error + 'a" where
  "iloc xs i = (if i < length xs then Inr (xs ! i) else Inl IndexError)"

text \<open>\<open>xs[i]\<close> on a Python list, \<open>i \<ge> 0\<close>.\<close>

definition getitem :: "'a list \<Rightarrow> nat \<Rightarrow> py_error + 'a" where
  "getitem xs i = (if i < length xs then Inr (xs ! i) else Inl IndexError)"

text \<open>
  \<open>s.split(sep)\<close> with an explicit one-character separator: the text is cut at every
  occurrence of the separator, and neighbouring separators give empty pieces.
\<close>

fun split :: "string \<Rightarrow> char \<Rightarrow> string list" where
  "split [] sep = [[]]"
| "split (c # cs) sep =
     (if c = sep then [] # split cs sep
      else (case split cs sep of [] \<Rightarrow> [[c]] | w # ws \<Rightarrow> (c # w) # ws))"

text \<open>
  \<open>s.lower()\<close> on the code points below 256: the letters A..Z and the upper-case
  letters of Latin-1 (192..222 without the multiplication sign 215) move up by 32.
\<close>

definition lower_char :: "char \<Rightarrow> char" where
  "lower_char c =
     (let n = (of_char c :: nat)
      in if (65 \<le> n \<and> n \<le> 90) \<or> (192 \<le> n \<and> n \<le> 222 \<and> n \<noteq> 215)
         then char_of (n + 32) else c)"

definition lower :: "string \<Rightarrow> string" where
  "lower s = map lower_char s"

text \<open>
  \<open>trades.groupby("Trade #")\<close>, iterated: one pair \<open>(key, group)\<close> per distinct key, keys
  ascending, each group holding the rows of that key in their original order.
\<close>

definition groupby_Trade_no :: "row list \<Rightarrow> (int \<times> row list) list" where
  "groupby_Trade_no rows =
     map (\<lambda>k. (k, filter (\<lambda>r. Trade_no r = k) rows)) (sort (remdups (map Trade_no rows)))"

text \<open>\<open>len\<close> of a Python 2-tuple: the number of its components.\<close>

definition len_tuple :: "'a \<times> 'b \<Rightarrow> nat" where
  "len_tuple p = 2"

text \<open>A list comprehension whose element expression may raise: the first exception ends it.\<close>

fun traverse :: "('a \<Rightarrow> py_error + 'b) \<Rightarrow> 'a list \<Rightarrow> py_error + 'b list" where
  "traverse f [] = Inr []"
| "traverse f (x # xs) =
     (case f x of Inl e \<Rightarrow> Inl e
      | Inr y \<Rightarrow> (case traverse f xs of Inl e \<Rightarrow> Inl e | Inr ys \<Rightarrow> Inr (y # ys)))"

section \<open>The Trade Reducer\<close>

text \<open>Sequencing of two steps of which the first may raise.\<close>

definition bind :: "py_error + 'a \<Rightarrow> ('a \<Rightarrow> py_error + 'b) \<Rightarrow> py_error + 'b" where
  "bind m f = (case m of Inl e \<Rightarrow> Inl e | Inr x \<Rightarrow> f x)"

text \<open>\<open>ConvertTradeTV.convert\<close>.\<close>

definition convert :: "row list \<Rightarrow> py_error + Trade" where
  "convert pair_trade =
     bind (iloc pair_trade 1) (\<lambda>entry.
     bind (iloc pair_trade 0) (\<lambda>exit.
     bind (getitem (split (Type_col entry) (CHR '' '')) 1) (\<lambda>tok.
       Inr \<lparr> type = (if lower tok = ''long'' then LONG else SHORT),
             entry_date = Date_Time entry,
             entry_price = Price entry,
             contract = Contracts entry,
             entry_signal = Signal entry,
             exit_date = Val (Date_Time exit),
             exit_price = Price exit,
             exit_signal = Signal exit,
             profit = Profit_USDT entry,
             profit_percent = Profit_pct entry,
             draw_down = Drawdown_USDT entry,
             draw_down_percent = Drawdown_pct entry,
             run_up = Run_up_USDT entry,
             run_up_percent = Run_up_pct entry,
             cum_profit = Cum_Profit_USDT entry,
             cum_profit_percent = Cum_Profit_pct entry \<rparr>)))"

text \<open>
  \<open>DataFrameTV.__init__\<close>: the comprehension runs over the pairs \<open>(key, group)\<close> that the
  iteration of the groupby yields, tests \<open>len(trade) == 2\<close> on the pair and converts
  \<open>trade[1]\<close>, the group.  The result is the attribute \<open>self.trades\<close>.
\<close>

definition DataFrameTV_init :: "row list \<Rightarrow> py_error + Trade list" where
  "DataFrameTV_init trades =
     traverse (\<lambda>trade. convert (snd trade))
       (filter (\<lambda>trade. len_tuple trade = 2) (groupby_Trade_no trades))"

section \<open>Collections of trades: Python lists and DataFrames\<close>

text \<open>The label of a DataFrame row: a position of the default index, or an instant.\<close>

datatype label = Pos nat | Stamp timestamp

text \<open>
  A DataFrame of trades.  \<open>NoColumns\<close> is \<open>pd.DataFrame([])\<close>: no row and no column, so
  that every column access on it raises AttributeError.  \<open>Table rs\<close> has the sixteen
  columns of the dataclass and the labelled rows \<open>rs\<close>.
\<close>

datatype frame = NoColumns | Table "(label \<times> Trade) list"

text \<open>The argument \<open>trades: list or pd.DataFrame\<close> of every metric.\<close>

datatype trades_arg = PyList "Trade list" | DataFrame frame

text \<open>
  Building a column from the field values of the list: a column that holds nothing but
  \<open>None\<close> keeps its \<open>None\<close>s (dtype object); in any other column \<open>None\<close> becomes the
  missing value of the inferred dtype.
\<close>

definition infer :: "'a cell list \<Rightarrow> 'a cell \<Rightarrow> 'a cell" where
  "infer col c = (if c = PyNone \<and> list_ex (\<lambda>x. x \<noteq> PyNone) col then NaN else c)"

definition infer_row :: "Trade list \<Rightarrow> Trade \<Rightarrow> Trade" where
  "infer_row ts t =
     t \<lparr> entry_price := infer (map entry_price ts) (entry_price t),
         contract := infer (map contract ts) (contract t),
         exit_date := infer (map exit_date ts) (exit_date t),
         exit_price := infer (map exit_price ts) (exit_price t),
         profit := infer (map profit ts) (profit t),
         profit_percent := infer (map profit_percent ts) (profit_percent t),
         draw_down := infer (map draw_down ts) (draw_down t),
         draw_down_percent := infer (map draw_down_percent ts) (draw_down_percent t),
         run_up := infer (map run_up ts) (run_up t),
         run_up_percent := infer (map run_up_percent ts) (run_up_percent t),
         cum_profit := infer (map cum_profit ts) (cum_profit t),
         cum_profit_percent := infer (map cum_profit_percent ts) (cum_profit_percent t) \<rparr>"

text \<open>\<open>pd.DataFrame(trades)\<close> for a list of dataclass instances.\<close>

definition pd_DataFrame :: "Trade list \<Rightarrow> frame" where
  "pd_DataFrame ts =
     (if ts = [] then NoColumns
      else Table (map (\<lambda>(i, t). (Pos i, infer_row ts t)) (enumerate 0 ts)))"

text \<open>\<open>if isinstance(trades, list): trades = pd.DataFrame(trades)\<close>.\<close>

definition as_frame :: "trades_arg \<Rightarrow> frame" where
  "as_frame trades = (case trades of PyList ts \<Rightarrow> pd_DataFrame ts | DataFrame fr \<Rightarrow> fr)"

definition rows :: "frame \<Rightarrow> Trade list" where
  "rows fr = (case fr of NoColumns \<Rightarrow> [] | Table rs \<Rightarrow> map snd rs)"

text \<open>\<open>trades.<name>\<close>: the column of a field.\<close>

definition column :: "(Trade \<Rightarrow> 'a) \<Rightarrow> frame \<Rightarrow> py_error + 'a list" where
  "column f fr = (case fr of NoColumns \<Rightarrow> Inl AttributeError | Table rs \<Rightarrow> Inr (map (f \<circ> snd) rs))"

text \<open>
  \<open>trades[trades.profit > 0]\<close> and \<open>trades[trades.profit < 0]\<close>: the comparison of a column
  with 0 is false at a \<open>None\<close> and at a missing value, and raises nothing; the rows where
  it is true are kept, with their labels.
\<close>

definition holds :: "(rat \<Rightarrow> bool) \<Rightarrow> rat cell \<Rightarrow> bool" where
  "holds P c = (case c of Val x \<Rightarrow> P x | _ \<Rightarrow> False)"

definition where_profit :: "(rat \<Rightarrow> bool) \<Rightarrow> frame \<Rightarrow> py_error + frame" where
  "where_profit P fr =
     (case fr of NoColumns \<Rightarrow> Inl AttributeError
      | Table rs \<Rightarrow> Inr (Table (filter (\<lambda>r. holds P (profit (snd r))) rs)))"

text \<open>\<open>trades[trades.type == "long"]\<close> and its sibling.\<close>

definition where_type :: "Type \<Rightarrow> frame \<Rightarrow> py_error + frame" where
  "where_type d fr =
     (case fr of NoColumns \<Rightarrow> Inl AttributeError
      | Table rs \<Rightarrow> Inr (Table (filter (\<lambda>r. type (snd r) = d) rs)))"

section \<open>Scalars and column reductions\<close>

text \<open>
  A NumPy float: a finite value, an infinity or NaN.  Division by zero on such scalars
  does not raise; it gives an infinity, or NaN for \<open>0 / 0\<close>.
\<close>

datatype np_float = Fin rat | PInf | NInf | Nan

fun fneg :: "np_float \<Rightarrow> np_float" where
  "fneg (Fin x) = Fin (- x)"
| "fneg PInf = NInf"
| "fneg NInf = PInf"
| "fneg Nan = Nan"

fun fabs :: "np_float \<Rightarrow> np_float" where
  "fabs (Fin x) = Fin (abs x)"
| "fabs PInf = PInf"
| "fabs NInf = PInf"
| "fabs Nan = Nan"

text \<open>Multiplication by a finite positive constant, as in \<open>* 100\<close>.\<close>

fun fscale :: "np_float \<Rightarrow> rat \<Rightarrow> np_float" where
  "fscale (Fin x) k = Fin (x * k)"
| "fscale PInf k = PInf"
| "fscale NInf k = NInf"
| "fscale Nan k = Nan"

fun fdiv :: "np_float \<Rightarrow> np_float \<Rightarrow> np_float" where
  "fdiv Nan b = Nan"
| "fdiv a Nan = Nan"
| "fdiv (Fin x) (Fin y) =
     (if y = 0 then (if x = 0 then Nan else if 0 < x then PInf else NInf) else Fin (x / y))"
| "fdiv (Fin x) b = Fin 0"
| "fdiv PInf (Fin y) = (if 0 \<le> y then PInf else NInf)"
| "fdiv NInf (Fin y) = (if 0 \<le> y then NInf else PInf)"
| "fdiv a b = Nan"

text \<open>The present values of a column (\<open>skipna\<close>).\<close>

fun present :: "'a cell list \<Rightarrow> 'a list" where
  "present [] = []"
| "present (Val x # cs) = x # present cs"
| "present (c # cs) = present cs"

definition sum_skipna :: "rat cell list \<Rightarrow> np_float" where
  "sum_skipna col = Fin (sum_list (present col))"

definition max_skipna :: "rat cell list \<Rightarrow> np_float" where
  "max_skipna col = (case present col of [] \<Rightarrow> Nan | x # xs \<Rightarrow> Fin (fold max xs x))"

definition min_skipna :: "rat cell list \<Rightarrow> np_float" where
  "min_skipna col = (case present col of [] \<Rightarrow> Nan | x # xs \<Rightarrow> Fin (fold min xs x))"

definition mean_skipna :: "rat cell list \<Rightarrow> np_float" where
  "mean_skipna col =
     (case present col of [] \<Rightarrow> Nan | x # xs \<Rightarrow> Fin (sum_list (x # xs) / of_nat (length (x # xs))))"

definition count :: "'a cell list \<Rightarrow> nat" where
  "count col = length (present col)"

definition isna :: "'a cell \<Rightarrow> bool" where
  "isna c = (case c of Val x \<Rightarrow> False | _ \<Rightarrow> True)"

text \<open>
  Arithmetic of two cell values read out of a list element or a row: an operand \<open>None\<close>
  raises TypeError, a missing value gives NaN.
\<close>

definition cell_arith :: "(rat \<Rightarrow> rat \<Rightarrow> rat) \<Rightarrow> rat cell \<Rightarrow> rat cell \<Rightarrow> py_error + rat cell" where
  "cell_arith f a b =
     (case (a, b) of
        (PyNone, _) \<Rightarrow> Inl TypeError
      | (_, PyNone) \<Rightarrow> Inl TypeError
      | (Val x, Val y) \<Rightarrow> Inr (Val (f x y))
      | _ \<Rightarrow> Inr NaN)"

definition to_float :: "rat cell \<Rightarrow> np_float" where
  "to_float c = (case c of Val x \<Rightarrow> Fin x | _ \<Rightarrow> Nan)"

text \<open>\<open>math.isnan\<close>: TypeError on \<open>None\<close>.\<close>

definition math_isnan :: "rat cell \<Rightarrow> py_error + bool" where
  "math_isnan c = (case c of PyNone \<Rightarrow> Inl TypeError | NaN \<Rightarrow> Inr True | Val x \<Rightarrow> Inr False)"

text \<open>\<open>xs.iloc[-1]\<close>.\<close>

definition iloc_last :: "'a list \<Rightarrow> py_error + 'a" where
  "iloc_last xs = (if xs = [] then Inl IndexError else Inr (last xs))"

text \<open>
  A numeric column that holds a \<open>None\<close> has dtype object, and what is computed from it
  are Python numbers; any other numeric column holds NumPy floats.
\<close>

definition object_column :: "(Trade \<Rightarrow> 'a cell) \<Rightarrow> frame \<Rightarrow> bool" where
  "object_column f fr = list_ex (\<lambda>t. f t = PyNone) (rows fr)"

text \<open>
  \<open>a / b\<close>: between two Python numbers a zero divisor raises ZeroDivisionError; with a
  NumPy operand the quotient is an infinity or NaN.
\<close>

definition truediv :: "bool \<Rightarrow> np_float \<Rightarrow> np_float \<Rightarrow> py_error + np_float" where
  "truediv python a b = (if python \<and> b = Fin 0 then Inl ZeroDivisionError else Inr (fdiv a b))"

section \<open>The formula library: class CalculatePerformanceSummary\<close>

text \<open>
  Every metric takes the argument as the caller passes it.  A metric that rebinds
  \<open>trades\<close> to a DataFrame hands that DataFrame on to the metrics it calls.
\<close>

definition initial_capital :: "trades_arg \<Rightarrow> py_error + np_float" where
  "initial_capital trades =
     (case trades of
        PyList ts \<Rightarrow>
          bind (getitem ts 0) (\<lambda>t.
          bind (cell_arith (*) (entry_price t) (contract t)) (\<lambda>c. Inr (to_float c)))
      | DataFrame fr \<Rightarrow>
          bind (iloc (rows fr) 0) (\<lambda>t.
          bind (cell_arith (*) (entry_price t) (contract t)) (\<lambda>c. Inr (to_float c))))"

definition net_profit :: "trades_arg \<Rightarrow> py_error + np_float" where
  "net_profit trades =
     bind (column profit (as_frame trades)) (\<lambda>col. Inr (sum_skipna col))"

definition net_profit_percent :: "trades_arg \<Rightarrow> py_error + np_float" where
  "net_profit_percent trades =
     bind (net_profit trades) (\<lambda>np.
     bind (initial_capital trades) (\<lambda>ic. Inr (fscale (fdiv np ic) 100)))"

definition gross_profit :: "trades_arg \<Rightarrow> py_error + np_float" where
  "gross_profit trades =
     bind (where_profit (\<lambda>x. 0 < x) (as_frame trades)) (\<lambda>fr.
     bind (column profit fr) (\<lambda>col. Inr (sum_skipna col)))"

definition gross_profit_percent :: "trades_arg \<Rightarrow> py_error + np_float" where
  "gross_profit_percent trades =
     (let trades = DataFrame (as_frame trades) in
      bind (gross_profit trades) (\<lambda>gp.
      bind (initial_capital trades) (\<lambda>ic. Inr (fscale (fdiv gp ic) 100))))"

definition gross_loss :: "trades_arg \<Rightarrow> py_error + np_float" where
  "gross_loss trades =
     bind (where_profit (\<lambda>x. x < 0) (as_frame trades)) (\<lambda>fr.
     bind (column profit fr) (\<lambda>col. Inr (sum_skipna col)))"

definition gross_loss_percent :: "trades_arg \<Rightarrow> py_error + np_float" where
  "gross_loss_percent trades =
     (let trades = DataFrame (as_frame trades) in
      bind (gross_loss trades) (\<lambda>gl.
      bind (initial_capital trades) (\<lambda>ic. Inr (fscale (fdiv gl ic) 100))))"

definition max_run_up :: "trades_arg \<Rightarrow> py_error + np_float" where
  "max_run_up trades = bind (column run_up (as_frame trades)) (\<lambda>col. Inr (max_skipna col))"

definition max_run_up_percent :: "trades_arg \<Rightarrow> py_error + np_float" where
  "max_run_up_percent trades =
     bind (column run_up_percent (as_frame trades)) (\<lambda>col. Inr (max_skipna col))"

definition max_draw_down :: "trades_arg \<Rightarrow> py_error + np_float" where
  "max_draw_down trades =
     bind (column draw_down (as_frame trades)) (\<lambda>col. Inr (fneg (max_skipna col)))"

definition max_draw_down_percent :: "trades_arg \<Rightarrow> py_error + np_float" where
  "max_draw_down_percent trades =
     bind (column draw_down_percent (as_frame trades)) (\<lambda>col. Inr (fneg (max_skipna col)))"

definition buy_and_hold :: "trades_arg \<Rightarrow> py_error + np_float" where
  "buy_and_hold trades =
     (let fr = as_frame trades in
      bind (column entry_price fr) (\<lambda>col.
      bind (iloc col 0) (\<lambda>first_price.
      bind (iloc_last (rows fr)) (\<lambda>last_row.
      bind (math_isnan (exit_price last_row)) (\<lambda>nan.
      bind (if nan then bind (iloc_last (rows fr)) (\<lambda>r. Inr (entry_price r))
            else Inr (exit_price last_row)) (\<lambda>last_price.
      bind (cell_arith (-) last_price first_price) (\<lambda>d.
      bind (column contract fr) (\<lambda>ccol.
      bind (iloc ccol 0) (\<lambda>c.
      bind (cell_arith (*) d c) (\<lambda>r. Inr (to_float r)))))))))))"

definition buy_and_hold_percent :: "trades_arg \<Rightarrow> py_error + np_float" where
  "buy_and_hold_percent trades =
     (let trades = DataFrame (as_frame trades) in
      bind (buy_and_hold trades) (\<lambda>bh.
      bind (initial_capital trades) (\<lambda>ic. Inr (fscale (fdiv bh ic) 100))))"

definition profit_factor :: "trades_arg \<Rightarrow> py_error + np_float" where
  "profit_factor trades =
     (let fr = as_frame trades; trades = DataFrame fr in
      bind (gross_profit trades) (\<lambda>gross_profit.
      bind (gross_loss trades) (\<lambda>gl.
        let gross_loss = fabs gl in
        if gross_profit \<noteq> Fin 0
        then truediv (object_column profit fr) gross_profit gross_loss
        else Inr gross_profit)))"

definition max_contract_held :: "trades_arg \<Rightarrow> py_error + np_float" where
  "max_contract_held trades =
     bind (column contract (as_frame trades)) (\<lambda>col. Inr (max_skipna col))"

text \<open>\<open>trades.dropna(subset=["contract"])\<close>: KeyError when there is no such column.\<close>

definition dropna_contract :: "frame \<Rightarrow> py_error + frame" where
  "dropna_contract fr =
     (case fr of NoColumns \<Rightarrow> Inl KeyError
      | Table rs \<Rightarrow> Inr (Table (filter (\<lambda>r. \<not> isna (contract (snd r))) rs)))"

definition total_closed_trades :: "trades_arg \<Rightarrow> py_error + nat" where
  "total_closed_trades trades =
     (case trades of
        PyList ts \<Rightarrow> bind (dropna_contract (pd_DataFrame ts)) (\<lambda>fr. Inr (length (rows fr)))
      | DataFrame fr \<Rightarrow> Inr (length (rows fr)))"

definition total_open_trades :: "trades_arg \<Rightarrow> py_error + nat" where
  "total_open_trades trades =
     bind (column contract (as_frame trades)) (\<lambda>col. Inr (length (filter isna col)))"

definition number_winning_trades :: "trades_arg \<Rightarrow> py_error + nat" where
  "number_winning_trades trades =
     bind (where_profit (\<lambda>x. 0 < x) (as_frame trades)) (\<lambda>fr.
     bind (column contract fr) (\<lambda>col. Inr (count col)))"

definition number_losing_trades :: "trades_arg \<Rightarrow> py_error + nat" where
  "number_losing_trades trades =
     bind (where_profit (\<lambda>x. x < 0) (as_frame trades)) (\<lambda>fr.
     bind (column contract fr) (\<lambda>col. Inr (count col)))"

definition avg_trade :: "trades_arg \<Rightarrow> py_error + np_float" where
  "avg_trade trades = bind (column profit (as_frame trades)) (\<lambda>col. Inr (mean_skipna col))"

definition avg_trade_percent :: "trades_arg \<Rightarrow> py_error + np_float" where
  "avg_trade_percent trades =
     bind (column profit_percent (as_frame trades)) (\<lambda>col. Inr (mean_skipna col))"

definition avg_winning_trade :: "trades_arg \<Rightarrow> py_error + np_float" where
  "avg_winning_trade trades =
     bind (where_profit (\<lambda>x. 0 < x) (as_frame trades)) (\<lambda>fr.
     bind (column profit fr) (\<lambda>col. Inr (mean_skipna col)))"

definition avg_winning_trade_percent :: "trades_arg \<Rightarrow> py_error + np_float" where
  "avg_winning_trade_percent trades =
     bind (where_profit (\<lambda>x. 0 < x) (as_frame trades)) (\<lambda>fr.
     bind (column profit_percent fr) (\<lambda>col. Inr (mean_skipna col)))"

definition avg_losing_trade :: "trades_arg \<Rightarrow> py_error + np_float" where
  "avg_losing_trade trades =
     bind (where_profit (\<lambda>x. x < 0) (as_frame trades)) (\<lambda>fr.
     bind (column profit fr) (\<lambda>col. Inr (mean_skipna col)))"

definition avg_losing_trade_percent :: "trades_arg \<Rightarrow> py_error + np_float" where
  "avg_losing_trade_percent trades =
     bind (where_profit (\<lambda>x. x < 0) (as_frame trades)) (\<lambda>fr.
     bind (column profit_percent fr) (\<lambda>col. Inr (mean_skipna col)))"

definition ratio_avg_win_avg_loss :: "trades_arg \<Rightarrow> py_error + np_float" where
  "ratio_avg_win_avg_loss trades =
     (let trades = DataFrame (as_frame trades) in
      bind (avg_winning_trade trades) (\<lambda>avg_winning_trade.
      bind (avg_losing_trade trades) (\<lambda>al.
        Inr (fdiv avg_winning_trade (fabs al)))))"

definition largest_winning_trade :: "trades_arg \<Rightarrow> py_error + np_float" where
  "largest_winning_trade trades =
     bind (where_profit (\<lambda>x. 0 < x) (as_frame trades)) (\<lambda>fr.
     bind (column profit fr) (\<lambda>col. Inr (max_skipna col)))"

definition largest_winning_trade_percent :: "trades_arg \<Rightarrow> py_error + np_float" where
  "largest_winning_trade_percent trades =
     bind (where_profit (\<lambda>x. 0 < x) (as_frame trades)) (\<lambda>fr.
     bind (column profit_percent fr) (\<lambda>col. Inr (max_skipna col)))"

definition largest_losing_trade :: "trades_arg \<Rightarrow> py_error + np_float" where
  "largest_losing_trade trades =
     bind (where_profit (\<lambda>x. x < 0) (as_frame trades)) (\<lambda>fr.
     bind (column profit fr) (\<lambda>col. Inr (min_skipna col)))"

definition largest_losing_trade_percent :: "trades_arg \<Rightarrow> py_error + np_float" where
  "largest_losing_trade_percent trades =
     bind (where_profit (\<lambda>x. x < 0) (as_frame trades)) (\<lambda>fr.
     bind (column profit_percent fr) (\<lambda>col. Inr (min_skipna col)))"

text \<open>
  The instant of a Timestamp in nanoseconds since 1970-01-01, through the day number of
  its date in the proleptic Gregorian calendar.
\<close>

definition days_from_civil :: "int \<Rightarrow> nat \<Rightarrow> nat \<Rightarrow> int" where
  "days_from_civil y m d =
     (let y' = (if m \<le> 2 then y - 1 else y);
          era = y' div 400;
          yoe = y' - era * 400;
          mp = (if 2 < m then int m - 3 else int m + 9);
          doy = (153 * mp + 2) div 5 + int d - 1;
          doe = yoe * 365 + yoe div 4 - yoe div 100 + doy
      in era * 146097 + doe - 719468)"

definition to_ns :: "timestamp \<Rightarrow> int" where
  "to_ns t = days_from_civil (year t) (month t) (day t) * 86400000000000 + int (time_ns t)"

text \<open>
  \<open>trades.exit_date - trades.entry_date\<close>, row by row: a \<open>None\<close> exit date (a column of
  dtype object) raises TypeError, a missing one gives a missing duration.
\<close>

fun durations :: "Trade list \<Rightarrow> py_error + int cell list" where
  "durations [] = Inr []"
| "durations (t # ts) =
     (case exit_date t of
        PyNone \<Rightarrow> Inl TypeError
      | NaN \<Rightarrow> bind (durations ts) (\<lambda>ds. Inr (NaN # ds))
      | Val e \<Rightarrow> bind (durations ts) (\<lambda>ds. Inr (Val (to_ns e - to_ns (entry_date t)) # ds)))"

definition duration :: "frame \<Rightarrow> py_error + int cell list" where
  "duration fr = (case fr of NoColumns \<Rightarrow> Inl AttributeError | Table rs \<Rightarrow> durations (map snd rs))"

text \<open>A quotient cut to whole nanoseconds, towards zero.\<close>

definition trunc_div :: "int \<Rightarrow> int \<Rightarrow> int" where
  "trunc_div a b = (if 0 \<le> a then a div b else - ((- a) div b))"

text \<open>\<open>.round("1s")\<close>: to the nearest multiple of \<open>10^9\<close> nanoseconds, a tie to the even one.\<close>

definition round_1s :: "int \<Rightarrow> int" where
  "round_1s n =
     (let unit = 1000000000; q = n div unit; r = n mod unit
      in if 2 * r < unit then q * unit
         else if unit < 2 * r then (q + 1) * unit
         else if even q then q * unit else (q + 1) * unit)"

text \<open>\<open>duration.mean().round("1s")\<close>; the mean of no duration is \<open>NaT\<close>, and stays so.\<close>

definition mean_round_1s :: "int cell list \<Rightarrow> int cell" where
  "mean_round_1s ds =
     (case present ds of [] \<Rightarrow> NaN
      | x # xs \<Rightarrow> Val (round_1s (trunc_div (sum_list (x # xs)) (int (length (x # xs))))))"

definition avg_bars_in_trades :: "trades_arg \<Rightarrow> py_error + int cell" where
  "avg_bars_in_trades trades =
     bind (duration (as_frame trades)) (\<lambda>ds. Inr (mean_round_1s ds))"

definition avg_bars_in_winning_trades :: "trades_arg \<Rightarrow> py_error + int cell" where
  "avg_bars_in_winning_trades trades =
     bind (where_profit (\<lambda>x. 0 < x) (as_frame trades)) (\<lambda>fr.
     bind (duration fr) (\<lambda>ds. Inr (mean_round_1s ds)))"

definition avg_bars_in_losing_trades :: "trades_arg \<Rightarrow> py_error + int cell" where
  "avg_bars_in_losing_trades trades =
     bind (where_profit (\<lambda>x. x < 0) (as_frame trades)) (\<lambda>fr.
     bind (duration fr) (\<lambda>ds. Inr (mean_round_1s ds)))"

section \<open>The orchestrator: PerformanceSummary.performance\_summary\<close>

text \<open>An entry of the result Series: a float, a count or a duration.\<close>

datatype entry = Float np_float | Count nat | Timedelta "int cell"

definition as_float :: "(trades_arg \<Rightarrow> py_error + np_float) \<Rightarrow> trades_arg \<Rightarrow> py_error + entry" where
  "as_float m trades = bind (m trades) (\<lambda>x. Inr (Float x))"

definition as_int :: "(trades_arg \<Rightarrow> py_error + nat) \<Rightarrow> trades_arg \<Rightarrow> py_error + entry" where
  "as_int m trades = bind (m trades) (\<lambda>x. Inr (Count x))"

definition as_timedelta :: "(trades_arg \<Rightarrow> py_error + int cell) \<Rightarrow> trades_arg \<Rightarrow> py_error + entry" where
  "as_timedelta m trades = bind (m trades) (\<lambda>x. Inr (Timedelta x))"

text \<open>The thirty-two calls, in the order in which \<open>performance_summary\<close> makes them.\<close>

definition metrics :: "(trades_arg \<Rightarrow> py_error + entry) list" where
  "metrics =
     [as_float net_profit, as_float net_profit_percent,
      as_float gross_profit, as_float gross_profit_percent,
      as_float gross_loss, as_float gross_loss_percent,
      as_float max_run_up, as_float max_run_up_percent,
      as_float max_draw_down, as_float max_draw_down_percent,
      as_float buy_and_hold, as_float buy_and_hold_percent,
      as_float profit_factor, as_float max_contract_held,
      as_int total_closed_trades, as_int total_open_trades,
      as_int number_winning_trades, as_int number_losing_trades,
      as_float avg_trade, as_float avg_trade_percent,
      as_float avg_winning_trade, as_float avg_winning_trade_percent,
      as_float avg_losing_trade, as_float avg_losing_trade_percent,
      as_float ratio_avg_win_avg_loss,
      as_float largest_winning_trade, as_float largest_winning_trade_percent,
      as_float largest_losing_trade, as_float largest_losing_trade_percent,
      as_timedelta avg_bars_in_trades, as_timedelta avg_bars_in_winning_trades,
      as_timedelta avg_bars_in_losing_trades]"

definition index :: "string list" where
  "index =
     [''Net Profit'', ''Net Profit %'', ''Gross Profit'', ''Gross Profit %'',
      ''Gross Loss'', ''Gross Loss %'', ''Max Run Up'', ''Max Run Up %'',
      ''Max Draw Down'', ''Max Draw Down %'', ''Buy and Hold'',
      ''Buy and Hold %'', ''Profit Factor'', ''Max Contract Held'',
      ''Total Closed Trades'', ''Total Open Trades'',
      ''Number Winning Trades'', ''Number Losing Trades'', ''Avg Trade'',
      ''Avg Trade %'', ''Avg Winning Trade'', ''Avg Winning Trade %'',
      ''Avg Losing Trade'', ''Avg Losing Trade %'', ''Ratio Avg Win Avg Loss'',
      ''Largest Winning Trade'', ''Largest Winning Trade %'',
      ''Largest Losing Trade'', ''Largest Losing Trade %'',
      ''Avg Bars in Trades'', ''Avg Bars in Winning Trades'',
      ''Avg Bars in Losing Trades'']"

text \<open>A \<open>pd.Series\<close> of labelled entries.\<close>

type_synonym series = "(string \<times> entry) list"

definition performance_summary :: "trades_arg \<Rightarrow> py_error + series" where
  "performance_summary trades =
     bind (traverse (\<lambda>m. m trades) metrics) (\<lambda>data. Inr (zip index data))"

text \<open>The properties of \<open>DataFrameTV\<close>, on the attribute \<open>self.trades\<close>.\<close>

definition performance_summary_long :: "Trade list \<Rightarrow> py_error + series" where
  "performance_summary_long self_trades =
     performance_summary (PyList (filter (\<lambda>trade. type trade = LONG) self_trades))"

definition performance_summary_short :: "Trade list \<Rightarrow> py_error + series" where
  "performance_summary_short self_trades =
     performance_summary (PyList (filter (\<lambda>trade. type trade = SHORT) self_trades))"

section \<open>Monthly partitioning: PerformanceSummary.monthly\_performance\<close>

text \<open>\<open>trades.index = pd.to_datetime(trades.entry_date)\<close>: the labels become the entry dates.\<close>

definition set_index :: "frame \<Rightarrow> py_error + frame" where
  "set_index fr =
     (case fr of NoColumns \<Rightarrow> Inl AttributeError
      | Table rs \<Rightarrow> Inr (Table (map (\<lambda>r. (Stamp (entry_date (snd r)), snd r)) rs)))"

text \<open>
  The calendar month of an instant, numbered through the years, and the chronological
  order of instants: by month, then day, then time of day.
\<close>

definition month_no :: "timestamp \<Rightarrow> int" where
  "month_no t = year t * 12 + int (month t) - 1"

definition chrono :: "timestamp \<Rightarrow> int \<times> nat \<times> nat" where
  "chrono t = (month_no t, day t, time_ns t)"

definition is_leap :: "int \<Rightarrow> bool" where
  "is_leap y = (if y mod 400 = 0 then True else if y mod 100 = 0 then False else y mod 4 = 0)"

definition days_in_month :: "int \<Rightarrow> nat \<Rightarrow> nat" where
  "days_in_month y m =
     (if m = 2 then (if is_leap y then 29 else 28)
      else if m = 4 \<or> m = 6 \<or> m = 9 \<or> m = 11 then 30 else 31)"

text \<open>The label of a monthly bin: midnight of the last day of the month.\<close>

definition month_end :: "int \<Rightarrow> timestamp" where
  "month_end k =
     (let y = k div 12; m = nat (k mod 12) + 1
      in \<lparr> year = y, month = m, day = days_in_month y m, time_ns = 0 \<rparr>)"

text \<open>\<open>name.strftime("%Y-%m-%d")\<close>, for the four-digit years a Timestamp can hold.\<close>

definition digit :: "nat \<Rightarrow> char" where
  "digit n = char_of (48 + n mod 10)"

definition strftime_Ymd :: "timestamp \<Rightarrow> string" where
  "strftime_Ymd t =
     (let y = nat (year t)
      in [digit (y div 1000), digit (y div 100), digit (y div 10), digit y] @ ''-'' @
         [digit (month t div 10), digit (month t)] @ ''-'' @
         [digit (day t div 10), digit (day t)])"

text \<open>
  \<open>trades.groupby(pd.Grouper(freq="M"))\<close>, iterated.  The grouper needs an index of
  instants.  It orders the rows by their labels (a stable sort) and cuts them into one
  bin per calendar month from the month of the earliest label to the month of the
  latest one; the iteration yields every bin, also one that holds no row.
\<close>

definition stamp :: "label \<Rightarrow> py_error + timestamp" where
  "stamp l = (case l of Stamp t \<Rightarrow> Inr t | Pos n \<Rightarrow> Inl TypeError)"

definition groupby_month :: "frame \<Rightarrow> py_error + (timestamp \<times> frame) list" where
  "groupby_month fr =
     (case fr of NoColumns \<Rightarrow> Inl TypeError
      | Table rs \<Rightarrow>
          bind (traverse (\<lambda>r. bind (stamp (fst r)) (\<lambda>t. Inr (t, r))) rs) (\<lambda>keyed.
            let sorted = sort_key (\<lambda>p. chrono (fst p)) keyed in
            if sorted = [] then Inr []
            else Inr (map (\<lambda>k. (month_end k,
                                Table (map snd (filter (\<lambda>p. month_no (fst p) = k) sorted))))
                        [month_no (fst (hd sorted)) .. month_no (fst (last sorted))])))"

text \<open>The transposed result: one labelled row per Series.\<close>

type_synonym table = "(string \<times> series) list"

text \<open>The body of the loop \<open>for name, group in monthly\<close>: the rows it appends.\<close>

definition month_rows :: "bool \<Rightarrow> timestamp \<times> frame \<Rightarrow> py_error + table" where
  "month_rows with_separate_long_short g =
     (let name = strftime_Ymd (fst g); group = snd g in
      bind (performance_summary (DataFrame group)) (\<lambda>performance.
        if with_separate_long_short then
          bind (where_type LONG group) (\<lambda>group_long.
          bind (performance_summary (DataFrame group_long)) (\<lambda>performance_long.
          bind (where_type SHORT group) (\<lambda>group_short.
          bind (performance_summary (DataFrame group_short)) (\<lambda>performance_short.
            Inr [(name, performance),
                 (name @ '' Long'', performance_long),
                 (name @ '' Short'', performance_short)]))))
        else Inr [(name, performance)]))"

text \<open>
  \<open>PerformanceSummary.monthly_performance\<close>.  The assignment to \<open>trades.index\<close> acts on
  the object the caller passed when that is a DataFrame, and on a fresh DataFrame when
  it is a list.  The function therefore returns a pair: the caller's argument as it is
  after the call, and the result or the exception.
\<close>

definition monthly_performance :: "trades_arg \<Rightarrow> bool \<Rightarrow> trades_arg \<times> (py_error + table)" where
  "monthly_performance trades with_separate_long_short =
     (case set_index (as_frame trades) of
        Inl e \<Rightarrow> (trades, Inl e)
      | Inr fr \<Rightarrow>
          ((case trades of PyList ts \<Rightarrow> PyList ts | DataFrame old \<Rightarrow> DataFrame fr),
           bind (groupby_month fr) (\<lambda>monthly.
           bind (traverse (month_rows with_separate_long_short) monthly) (\<lambda>rs.
             Inr (concat rs)))))"

section \<open>Sample data\<close>

definition at_day :: "int \<Rightarrow> nat \<Rightarrow> nat \<Rightarrow> timestamp" where
  "at_day y m d = \<lparr> year = y, month = m, day = d, time_ns = 0 \<rparr>"

text \<open>The two legs of trade number 1 as the export lists them: the exit row, then the entry row.\<close>

definition exit_leg :: row where
  "exit_leg = \<lparr> Trade_no = 1, Type_col = ''Exit Long'', Signal = Some ''Close'',
     Date_Time = at_day 2022 6 2, Price = Val 110, Contracts = Val 1,
     Profit_USDT = Val 10, Profit_pct = Val 10, Cum_Profit_USDT = Val 10, Cum_Profit_pct = Val 10,
     Run_up_USDT = Val 12, Run_up_pct = Val 12, Drawdown_USDT = Val 1, Drawdown_pct = Val 1 \<rparr>"

definition entry_leg :: row where
  "entry_leg = \<lparr> Trade_no = 1, Type_col = ''Entry Long'', Signal = Some ''Buy'',
     Date_Time = at_day 2022 6 1, Price = Val 100, Contracts = Val 1,
     Profit_USDT = Val 10, Profit_pct = Val 10, Cum_Profit_USDT = Val 10, Cum_Profit_pct = Val 10,
     Run_up_USDT = Val 12, Run_up_pct = Val 12, Drawdown_USDT = Val 1, Drawdown_pct = Val 1 \<rparr>"

text \<open>A closed trade with the given direction, entry, size, exit and profit.\<close>

definition closed_trade :: "Type \<Rightarrow> timestamp \<Rightarrow> rat \<Rightarrow> rat \<Rightarrow> timestamp \<Rightarrow> rat \<Rightarrow> rat \<Rightarrow> Trade" where
  "closed_trade d t0 p c t1 q pr =
     \<lparr> type = d, entry_date = t0, entry_price = Val p, contract = Val c,
       entry_signal = None, exit_date = Val t1, exit_price = Val q, exit_signal = None,
       profit = Val pr, profit_percent = Val (pr / (p * c) * 100),
       draw_down = Val 1, draw_down_percent = Val 1,
       run_up = Val 2, run_up_percent = Val 2, cum_profit = Val pr, cum_profit_percent = Val 0 \<rparr>"

text \<open>
  An open trade as the dataclass builds it from its four required fields: every
  optional field keeps its default \<open>None\<close>.
\<close>

definition open_trade :: "Type \<Rightarrow> timestamp \<Rightarrow> rat \<Rightarrow> rat \<Rightarrow> Trade" where
  "open_trade d t0 p c =
     \<lparr> type = d, entry_date = t0, entry_price = Val p, contract = Val c,
       entry_signal = None, exit_date = PyNone, exit_price = PyNone, exit_signal = None,
       profit = PyNone, profit_percent = PyNone, draw_down = PyNone, draw_down_percent = PyNone,
       run_up = PyNone, run_up_percent = PyNone, cum_profit = PyNone, cum_profit_percent = PyNone \<rparr>"

text \<open>The scenario of two profitable trades: a long 100 to 110 and a short 200 to 190.\<close>

definition two_winners :: "Trade list" where
  "two_winners =
     [closed_trade LONG (at_day 2022 6 1) 100 1 (at_day 2022 6 2) 110 10,
      closed_trade SHORT (at_day 2022 6 5) 200 1 (at_day 2022 6 6) 190 10]"

text \<open>Two trades entered in January and in March: February holds no trade.\<close>

definition gap_trades :: "Trade list" where
  "gap_trades =
     [closed_trade LONG (at_day 2022 1 10) 100 1 (at_day 2022 1 11) 110 10,
      closed_trade SHORT (at_day 2022 3 5) 200 1 (at_day 2022 3 6) 210 (- 10)]"

text \<open>Two trades entered in June and in July.\<close>

definition two_months :: "Trade list" where
  "two_months =
     [closed_trade LONG (at_day 2022 6 10) 100 1 (at_day 2022 6 11) 110 10,
      closed_trade SHORT (at_day 2022 7 5) 200 1 (at_day 2022 7 6) 205 (- 5)]"

text \<open>
  A fully recorded trade: none of the fields that the metrics read with an operation
  that rejects \<open>None\<close> (arithmetic, \<open>math.isnan\<close>) is \<open>None\<close>.
\<close>

definition recorded :: "Trade \<Rightarrow> bool" where
  "recorded t =
     (entry_price t \<noteq> PyNone \<and> contract t \<noteq> PyNone \<and> exit_date t \<noteq> PyNone \<and>
      exit_price t \<noteq> PyNone)"

text \<open>The Trade records of a collection, in order.\<close>

definition trades_of :: "trades_arg \<Rightarrow> Trade list" where
  "trades_of trades = (case trades of PyList ts \<Rightarrow> ts | DataFrame fr \<Rightarrow> rows fr)"

section \<open>The specification's reading of the direction field\<close>

text \<open>
  Step 4 of the Trade Reducer in the specification: split the Type field on whitespace,
  take the second token, lower-case it, map \<open>"long"\<close> to long and anything else to
  short.  Splitting on whitespace cuts at runs of blanks, tabs and line breaks and
  yields no empty token.
\<close>

definition is_whitespace :: "char \<Rightarrow> bool" where
  "is_whitespace c = (let n = (of_char c :: nat) in n = 32 \<or> (9 \<le> n \<and> n \<le> 13))"

fun pieces :: "(char \<Rightarrow> bool) \<Rightarrow> string \<Rightarrow> string list" where
  "pieces P [] = [[]]"
| "pieces P (c # cs) =
     (if P c then [] # pieces P cs
      else (case pieces P cs of [] \<Rightarrow> [[c]] | w # ws \<Rightarrow> (c # w) # ws))"

definition spec_tokens :: "string \<Rightarrow> string list" where
  "spec_tokens s = filter (\<lambda>w. w \<noteq> []) (pieces is_whitespace s)"

definition spec_direction :: "string \<Rightarrow> Type option" where
  "spec_direction s =
     (case spec_tokens s of
        role # tok # rest \<Rightarrow> Some (if lower tok = ''long'' then LONG else SHORT)
      | _ \<Rightarrow> None)"

section \<open>Properties of the Trade Reducer\<close>

lemmas leg_defs = exit_leg_def entry_leg_def at_day_def

lemma filter_len_tuple: "filter (\<lambda>trade. len_tuple trade = 2) gs = gs"
  by (simp add: len_tuple_def)

text \<open>The guard of the comprehension keeps every group, whatever its size.\<close>

lemma DataFrameTV_init_all_groups:
  "DataFrameTV_init trades = traverse (\<lambda>trade. convert (snd trade)) (groupby_Trade_no trades)"
  by (simp add: DataFrameTV_init_def filter_len_tuple)

text \<open>
  C1.  The claim: a trade identifier whose group has one row, or three or more rows,
  yields no Trade record and no exception.  The guard \<open>len(trade) == 2\<close> measures the
  pair \<open>(key, group)\<close> and not the group, so it holds for every group.  On a single
  entry row the conversion reads position 1 of a one-row group and raises IndexError;
  on three rows of one identifier it builds one Trade from the first two.
\<close>

theorem reducer_keeps_malformed_groups:
  "DataFrameTV_init [entry_leg] = Inl IndexError \<and>
   map_sum id length (DataFrameTV_init [exit_leg, entry_leg, entry_leg]) = Inr 1"
  by (simp add: DataFrameTV_init_def groupby_Trade_no_def len_tuple_def convert_def iloc_def
      getitem_def bind_def leg_defs)

lemma lower_Long: "lower ''Long'' = ''long''"
  by code_simp

lemma lower_empty: "lower [] = []"
  by (simp add: lower_def)

lemma split_token: "sep \<notin> set w \<Longrightarrow> split (w @ sep # rest) sep = w # split rest sep"
  by (induction w) (auto split: list.splits)

lemma split_nosep: "sep \<notin> set w \<Longrightarrow> split w sep = [w]"
  by (induction w) (auto split: list.splits)

lemma split_second:
  assumes "sep \<notin> set role" and "sep \<notin> set dir" and "rest = [] \<or> hd rest = sep"
  shows "getitem (split (role @ sep # dir @ rest) sep) 1 = Inr dir"
proof (cases rest)
  case Nil
  then show ?thesis using assms by (simp add: split_token split_nosep getitem_def)
next
  case (Cons c cs)
  with assms(3) have "rest = sep # cs" by simp
  then show ?thesis using assms(1,2) by (simp add: split_token getitem_def)
qed

text \<open>A Type field without a blank has a single piece, and the conversion raises.\<close>

lemma convert_no_space: "CHR '' '' \<notin> set (Type_col r1) \<Longrightarrow> convert [r0, r1] = Inl IndexError"
  by (simp add: convert_def iloc_def bind_def getitem_def split_nosep)

lemma pieces_token:
  "\<not> list_ex P w \<Longrightarrow> P sep \<Longrightarrow> pieces P (w @ sep # rest) = w # pieces P rest"
  by (induction w) (auto split: list.splits)

lemma pieces_word: "\<not> list_ex P w \<Longrightarrow> pieces P w = [w]"
  by (induction w) (auto split: list.splits)

lemma spec_tokens_format:
  assumes "role \<noteq> []" and "dir \<noteq> []"
    and "\<not> list_ex is_whitespace role" and "\<not> list_ex is_whitespace dir"
  shows "spec_tokens (role @ CHR '' '' # dir) = [role, dir]"
proof -
  have "is_whitespace (CHR '' '')" by (simp add: is_whitespace_def)
  then have "pieces is_whitespace (role @ CHR '' '' # dir) = [role, dir]"
    using assms(3,4) by (simp add: pieces_token pieces_word)
  then show ?thesis using assms(1,2) by (simp add: spec_tokens_def)
qed

text \<open>
  C6.  For every two-row group whose row at position 1 has a Type field of the form
  role, one blank, direction word (and then nothing or a further blank): the row at
  position 1 is the entry row and the row at position 0 the exit row; the direction is
  long when the lower-cased direction word is \<open>"long"\<close> and short for any other word;
  price, contracts, signal, profit, percent, drawdown, run-up and cumulative fields
  and the entry time are those of the entry row, and exit time, exit price and exit
  signal are those of the exit row.  On the format \<open>"<role> <direction>"\<close> of the
  specification, two words without whitespace separated by one blank, the direction
  word is the second whitespace-separated token, so that the code's split at the blank
  and the specification's split on whitespace give the same direction.
\<close>

theorem convert_two_row_group:
  assumes "Type_col r1 = role @ CHR '' '' # dir @ rest"
    and "CHR '' '' \<notin> set role" and "CHR '' '' \<notin> set dir"
    and "rest = [] \<or> hd rest = CHR '' ''"
  shows "convert [r0, r1] =
     Inr \<lparr> type = (if lower dir = ''long'' then LONG else SHORT),
           entry_date = Date_Time r1,
           entry_price = Price r1,
           contract = Contracts r1,
           entry_signal = Signal r1,
           exit_date = Val (Date_Time r0),
           exit_price = Price r0,
           exit_signal = Signal r0,
           profit = Profit_USDT r1,
           profit_percent = Profit_pct r1,
           draw_down = Drawdown_USDT r1,
           draw_down_percent = Drawdown_pct r1,
           run_up = Run_up_USDT r1,
           run_up_percent = Run_up_pct r1,
           cum_profit = Cum_Profit_USDT r1,
           cum_profit_percent = Cum_Profit_pct r1 \<rparr> \<and>
     (rest = [] \<and> role \<noteq> [] \<and> dir \<noteq> [] \<and>
      \<not> list_ex is_whitespace role \<and> \<not> list_ex is_whitespace dir \<longrightarrow>
        spec_direction (Type_col r1) = Some (if lower dir = ''long'' then LONG else SHORT))"
proof -
  have "spec_direction (Type_col r1) = Some (if lower dir = ''long'' then LONG else SHORT)"
    if "rest = []" "role \<noteq> []" "dir \<noteq> []"
      "\<not> list_ex is_whitespace role" "\<not> list_ex is_whitespace dir"
    using spec_tokens_format[OF that(2,3,4,5)] assms(1) that(1)
    by (simp add: spec_direction_def)
  then show ?thesis
    using split_second[OF assms(2,3,4)] assms(1)
    by (simp add: convert_def iloc_def bind_def)
qed

theorem convert_two_row_group_witness:
  "Type_col entry_leg = ''Entry'' @ CHR '' '' # ''Long'' @ [] \<and>
   CHR '' '' \<notin> set ''Entry'' \<and> CHR '' '' \<notin> set ''Long'' \<and>
   \<not> list_ex is_whitespace ''Entry'' \<and> \<not> list_ex is_whitespace ''Long'' \<and>
   map_sum id type (convert [exit_leg, entry_leg]) = Inr LONG \<and>
   map_sum id entry_price (convert [exit_leg, entry_leg]) = Inr (Val 100) \<and>
   map_sum id exit_price (convert [exit_leg, entry_leg]) = Inr (Val 110) \<and>
   map_sum id entry_date (convert [exit_leg, entry_leg]) = Inr (at_day 2022 6 1) \<and>
   map_sum id exit_date (convert [exit_leg, entry_leg]) = Inr (Val (at_day 2022 6 2)) \<and>
   spec_direction (Type_col entry_leg) = Some LONG"
proof -
  have h1: "Type_col entry_leg = ''Entry'' @ CHR '' '' # ''Long'' @ []" by (simp add: entry_leg_def)
  have h2: "CHR '' '' \<notin> set ''Entry''" by simp
  have h3: "CHR '' '' \<notin> set ''Long''" by simp
  have h4: "([]::string) = [] \<or> hd [] = CHR '' ''" by simp
  have h5: "\<not> list_ex is_whitespace ''Entry''" "\<not> list_ex is_whitespace ''Long''"
    by (simp_all add: is_whitespace_def)
  show ?thesis
    using convert_two_row_group[OF h1 h2 h3 h4, of exit_leg] h1 h5
    by (simp add: lower_Long leg_defs)
qed

section \<open>Properties of the formula library\<close>

lemmas sample_defs = closed_trade_def open_trade_def two_winners_def at_day_def
lemmas frame_defs = as_frame_def pd_DataFrame_def infer_row_def infer_def rows_def column_def
  where_profit_def holds_def bind_def

lemma bind_Inr [simp]: "bind (Inr x) f = f x" by (simp add: bind_def)
lemma bind_Inl [simp]: "bind (Inl e) f = Inl e" by (simp add: bind_def)
lemma bind_eq_Inr: "bind m f = Inr y \<longleftrightarrow> (\<exists>x. m = Inr x \<and> f x = Inr y)"
  by (cases m) simp_all

lemma as_frame_DataFrame [simp]: "as_frame (DataFrame fr) = fr" by (simp add: as_frame_def)

lemma present_nonneg: "0 \<le> sum_list (present (map f (filter (\<lambda>r. holds (\<lambda>x. 0 < x) (f r)) xs)))"
proof (induction xs)
  case Nil
  show ?case by simp
next
  case (Cons a xs)
  then show ?case by (cases "f a") (simp_all add: holds_def)
qed

lemma present_nonpos: "sum_list (present (map f (filter (\<lambda>r. holds (\<lambda>x. x < 0) (f r)) xs))) \<le> 0"
proof (induction xs)
  case Nil
  show ?case by simp
next
  case (Cons a xs)
  then show ?case by (cases "f a") (simp_all add: holds_def)
qed

lemma present_split:
  "sum_list (present (map f xs)) =
     sum_list (present (map f (filter (\<lambda>r. holds (\<lambda>x. 0 < x) (f r)) xs))) +
     sum_list (present (map f (filter (\<lambda>r. holds (\<lambda>x. x < 0) (f r)) xs)))"
proof (induction xs)
  case Nil
  show ?case by simp
next
  case (Cons a xs)
  then show ?case by (cases "f a") (auto simp: holds_def)
qed

lemma gross_profit_Table:
  "as_frame trades = Table rs \<Longrightarrow>
   gross_profit trades =
     Inr (Fin (sum_list (present (map (\<lambda>r. profit (snd r)) (filter (\<lambda>r. holds (\<lambda>x. 0 < x) (profit (snd r))) rs)))))"
  by (simp add: gross_profit_def where_profit_def column_def sum_skipna_def comp_def)

lemma gross_loss_Table:
  "as_frame trades = Table rs \<Longrightarrow>
   gross_loss trades =
     Inr (Fin (sum_list (present (map (\<lambda>r. profit (snd r)) (filter (\<lambda>r. holds (\<lambda>x. x < 0) (profit (snd r))) rs)))))"
  by (simp add: gross_loss_def where_profit_def column_def sum_skipna_def comp_def)

lemma net_profit_Table:
  "as_frame trades = Table rs \<Longrightarrow>
   net_profit trades = Inr (Fin (sum_list (present (map (\<lambda>r. profit (snd r)) rs))))"
  by (simp add: net_profit_def column_def sum_skipna_def comp_def)

lemma gross_profit_sign:
  assumes "gross_profit trades = Inr gp"
  shows "\<exists>x. gp = Fin x \<and> 0 \<le> x"
proof (cases "as_frame trades")
  case NoColumns
  then show ?thesis using assms by (simp add: gross_profit_def where_profit_def)
next
  case (Table rs)
  from gross_profit_Table[OF Table] assms
  have "gp = Fin (sum_list (present (map (\<lambda>r. profit (snd r))
          (filter (\<lambda>r. holds (\<lambda>x. 0 < x) (profit (snd r))) rs))))"
    by simp
  then show ?thesis using present_nonneg[of "\<lambda>r. profit (snd r)" rs] by blast
qed

lemma gross_loss_sign:
  assumes "gross_loss trades = Inr gl"
  shows "\<exists>x. gl = Fin x \<and> x \<le> 0"
proof (cases "as_frame trades")
  case NoColumns
  then show ?thesis using assms by (simp add: gross_loss_def where_profit_def)
next
  case (Table rs)
  from gross_loss_Table[OF Table] assms
  have "gl = Fin (sum_list (present (map (\<lambda>r. profit (snd r))
          (filter (\<lambda>r. holds (\<lambda>x. x < 0) (profit (snd r))) rs))))"
    by simp
  then show ?thesis using present_nonpos[of "\<lambda>r. profit (snd r)" rs] by blast
qed

lemma gross_profit_as_frame [simp]: "gross_profit (DataFrame (as_frame trades)) = gross_profit trades"
  by (simp add: gross_profit_def)
lemma gross_loss_as_frame [simp]: "gross_loss (DataFrame (as_frame trades)) = gross_loss trades"
  by (simp add: gross_loss_def)

lemma rows_pd_DataFrame: "rows (pd_DataFrame ts) = map (infer_row ts) ts"
  by (auto simp: pd_DataFrame_def rows_def comp_def enumerate_eq_zip map_snd_zip_take
      intro!: nth_equalityI)

lemma column_pd_DataFrame:
  "ts \<noteq> [] \<Longrightarrow> column f (pd_DataFrame ts) = Inr (map (\<lambda>t. f (infer_row ts t)) ts)"
  by (auto simp: pd_DataFrame_def column_def comp_def enumerate_eq_zip intro!: nth_equalityI)

lemma column_rows: "fr \<noteq> NoColumns \<Longrightarrow> column f fr = Inr (map f (rows fr))"
  by (cases fr) (simp_all add: column_def rows_def)

lemma pd_DataFrame_NoColumns: "pd_DataFrame ts = NoColumns \<longleftrightarrow> ts = []"
  by (simp add: pd_DataFrame_def)

lemma infer_keep: "c \<noteq> PyNone \<Longrightarrow> infer col c = c"
  by (simp add: infer_def)

lemma isna_infer [simp]: "isna (infer col c) = isna c"
  by (simp add: infer_def isna_def)

lemma profit_infer_row [simp]: "profit (infer_row ts t) = infer (map profit ts) (profit t)"
  by (simp add: infer_row_def)
lemma contract_infer_row [simp]: "contract (infer_row ts t) = infer (map contract ts) (contract t)"
  by (simp add: infer_row_def)
lemma entry_price_infer_row [simp]:
  "entry_price (infer_row ts t) = infer (map entry_price ts) (entry_price t)"
  by (simp add: infer_row_def)
lemma exit_price_infer_row [simp]:
  "exit_price (infer_row ts t) = infer (map exit_price ts) (exit_price t)"
  by (simp add: infer_row_def)

subsection \<open>Profit Factor\<close>

text \<open>
  C2, as stated, fails: the guard of \<open>profit_factor\<close> tests the Gross Profit, not the
  Gross Loss.  For the two profitable trades Gross Profit is 20 and Gross Loss is 0, and
  the result is the quotient \<open>20 / 0\<close> of two NumPy floats, positive infinity, not 20.
\<close>

theorem profit_factor_counterexample:
  "profit_factor (PyList two_winners) = Inr PInf \<and>
   gross_profit (PyList two_winners) = Inr (Fin 20) \<and>
   gross_loss (PyList two_winners) = Inr (Fin 0)"
  by (simp add: profit_factor_def gross_profit_def gross_loss_def sum_skipna_def truediv_def
      object_column_def frame_defs sample_defs)

text \<open>
  C2, amended.  For every trade collection whose Gross Profit is 0, whatever its Gross
  Loss, the Profit Factor is the Gross Profit itself, that is 0.  For every trade
  collection whose Gross Loss is 0 and whose Gross Profit is not 0, the Profit Factor is
  not the Gross Profit but the quotient of the Gross Profit by 0: positive infinity for
  a positive and negative infinity for a negative Gross Profit when the profits are
  NumPy floats, and the exception ZeroDivisionError when they are Python numbers (a
  DataFrame whose profit column holds a \<open>None\<close>).
\<close>

theorem profit_factor_guard:
  assumes "gross_profit trades = Inr gp" and "gross_loss trades = Inr gl"
  shows "(gp = Fin 0 \<longrightarrow> profit_factor trades = Inr (Fin 0)) \<and>
         (\<forall>g. gp = Fin g \<and> g \<noteq> 0 \<and> gl = Fin 0 \<longrightarrow>
            profit_factor trades =
              (if object_column profit (as_frame trades) then Inl ZeroDivisionError
               else Inr (if 0 < g then PInf else NInf)))"
  using assms by (auto simp: profit_factor_def Let_def truediv_def)

theorem profit_factor_guard_witness:
  "profit_factor (PyList two_winners) = Inr PInf \<and>
   profit_factor (PyList [closed_trade LONG (at_day 2022 6 1) 100 1 (at_day 2022 6 2) 90 (- 10)])
     = Inr (Fin 0) \<and>
   profit_factor (DataFrame (Table [(Pos 0, hd two_winners),
       (Pos 1, open_trade LONG (at_day 2022 6 3) 100 1)])) = Inl ZeroDivisionError"
proof -
  let ?loser = "PyList [closed_trade LONG (at_day 2022 6 1) 100 1 (at_day 2022 6 2) 90 (- 10)]"
  let ?mixed = "DataFrame (Table [(Pos 0, hd two_winners),
       (Pos 1, open_trade LONG (at_day 2022 6 3) 100 1)])"
  have w: "gross_profit (PyList two_winners) = Inr (Fin 20)"
    "gross_loss (PyList two_winners) = Inr (Fin 0)"
    by (simp_all add: gross_profit_def gross_loss_def sum_skipna_def frame_defs sample_defs)
  have wo: "\<not> object_column profit (as_frame (PyList two_winners))"
    by (simp add: object_column_def frame_defs sample_defs)
  have l: "gross_profit ?loser = Inr (Fin 0)" "gross_loss ?loser = Inr (Fin (- 10))"
    by (simp_all add: gross_profit_def gross_loss_def sum_skipna_def frame_defs sample_defs)
  have m: "gross_profit ?mixed = Inr (Fin 10)" "gross_loss ?mixed = Inr (Fin 0)"
    by (simp_all add: gross_profit_def gross_loss_def sum_skipna_def frame_defs sample_defs)
  have mo: "object_column profit (as_frame ?mixed)"
    by (simp add: object_column_def frame_defs sample_defs)
  show ?thesis
    using profit_factor_guard[OF w] profit_factor_guard[OF l] profit_factor_guard[OF m] wo mo
    by simp
qed

subsection \<open>The empty collection\<close>

lemma performance_summary_empty: "performance_summary (PyList []) = Inl AttributeError"
  by (simp add: performance_summary_def metrics_def as_float_def net_profit_def frame_defs)

text \<open>
  C10.  For the empty list \<open>performance_summary\<close> raises at its first metric, Net Profit:
  the DataFrame of the empty list has neither a \<open>profit\<close> nor a \<open>contract\<close> column, and
  the list has no first element for the initial capital.  No labelled vector is
  returned.  This is what \<open>performance_summary_short\<close> does whenever no trade is short.
\<close>

theorem empty_collection_raises:
  "performance_summary (PyList []) = Inl AttributeError \<and>
   net_profit (PyList []) = Inl AttributeError \<and>
   column profit (pd_DataFrame []) = Inl AttributeError \<and>
   column contract (pd_DataFrame []) = Inl AttributeError \<and>
   initial_capital (PyList []) = Inl IndexError \<and>
   (\<forall>self_trades. filter (\<lambda>trade. type trade = SHORT) self_trades = [] \<longrightarrow>
      performance_summary_short self_trades = Inl AttributeError)"
  by (simp add: performance_summary_short_def performance_summary_empty net_profit_def
      initial_capital_def getitem_def frame_defs)

theorem empty_collection_raises_witness:
  "filter (\<lambda>trade. type trade = SHORT) [hd two_winners] = [] \<and>
   performance_summary_short [hd two_winners] = Inl AttributeError"
  using empty_collection_raises by (simp add: sample_defs)

subsection \<open>Buy and Hold\<close>

text \<open>
  With numeric prices the metric is (last exit price - first entry price) times the
  first contract size, and a missing last exit price (NaN) is replaced by the last
  entry price.
\<close>

lemma buy_and_hold_closed:
  assumes "ts \<noteq> []" and "entry_price (hd ts) = Val a" and "contract (hd ts) = Val k"
    and "exit_price (last ts) = Val b"
  shows "buy_and_hold (PyList ts) = Inr (Fin ((b - a) * k))"
  using assms
  by (simp add: buy_and_hold_def Let_def as_frame_def column_pd_DataFrame rows_pd_DataFrame
      iloc_def iloc_last_def hd_conv_nth[symmetric] hd_map last_map infer_keep math_isnan_def
      cell_arith_def to_float_def)

lemma buy_and_hold_fallback:
  assumes "ts \<noteq> []" and "entry_price (hd ts) = Val a" and "contract (hd ts) = Val k"
    and "exit_price (last ts) = NaN" and "entry_price (last ts) = Val b"
  shows "buy_and_hold (PyList ts) = Inr (Fin ((b - a) * k))"
  using assms
  by (simp add: buy_and_hold_def Let_def as_frame_def column_pd_DataFrame rows_pd_DataFrame
      iloc_def iloc_last_def hd_conv_nth[symmetric] hd_map last_map infer_keep math_isnan_def
      cell_arith_def to_float_def)

lemma buy_and_hold_scenario:
  "buy_and_hold (PyList [closed_trade LONG (at_day 2022 6 1) 100 2 (at_day 2022 6 2) 105 10,
                         closed_trade LONG (at_day 2022 6 3) 95 1 (at_day 2022 6 4) 90 (- 5)])
     = Inr (Fin (- 20))"
  by (simp add: buy_and_hold_def iloc_def iloc_last_def math_isnan_def cell_arith_def
      to_float_def frame_defs sample_defs)

text \<open>
  C5.  The claim: for every non-empty collection, an absent exit price of the last
  trade is replaced by its entry price.  A single open trade, built with the defaults
  of the dataclass, has the exit price \<open>None\<close>; its column holds nothing else and keeps
  the \<open>None\<close>, and \<open>math.isnan(None)\<close> raises TypeError.
\<close>

theorem buy_and_hold_open_trade:
  "buy_and_hold (PyList [open_trade LONG (at_day 2022 6 1) 100 2]) = Inl TypeError"
  by (simp add: buy_and_hold_def iloc_def iloc_last_def math_isnan_def frame_defs sample_defs)

subsection \<open>Closed and open trades\<close>

lemma total_closed_DataFrame: "total_closed_trades (DataFrame fr) = Inr (length (rows fr))"
  by (simp add: total_closed_trades_def)

lemma length_filter_snd: "length (filter (\<lambda>x. P (snd x)) zs) = length (filter P (map snd zs))"
  by (induction zs) simp_all

lemma total_closed_PyList:
  assumes "ts \<noteq> []"
  shows "total_closed_trades (PyList ts) = Inr (length (filter (\<lambda>t. \<not> isna (contract t)) ts))"
proof -
  have "rows (pd_DataFrame ts) = map (infer_row ts) ts" by (rule rows_pd_DataFrame)
  obtain rs where rs: "pd_DataFrame ts = Table rs"
    using assms by (simp add: pd_DataFrame_def)
  have m: "map snd rs = map (infer_row ts) ts"
    using rows_pd_DataFrame[of ts] by (simp add: rs rows_def)
  have "length (filter (\<lambda>r. \<not> isna (contract (snd r))) rs) =
        length (filter (\<lambda>t. \<not> isna (contract t)) (map snd rs))"
    by (rule length_filter_snd)
  also have "\<dots> = length (filter (\<lambda>t. \<not> isna (contract t)) (map (infer_row ts) ts))"
    by (simp only: m)
  also have "\<dots> = length (filter (\<lambda>t. \<not> isna (contract t)) ts)"
    by (simp add: filter_map comp_def)
  finally show ?thesis
    by (simp add: total_closed_trades_def dropna_contract_def rs rows_def)
qed

lemma total_open_PyList:
  assumes "ts \<noteq> []"
  shows "total_open_trades (PyList ts) = Inr (length (filter (\<lambda>t. isna (contract t)) ts))"
  using assms by (simp add: total_open_trades_def as_frame_def column_pd_DataFrame filter_map comp_def)


text \<open>
  C7.  The claim: also for a columnar table, Total Closed Trades counts the trades whose
  contract size is present, so that closed and open trades add up to the size of the
  collection.  For a DataFrame the function returns the number of rows; the rows
  without a contract size are dropped on the list path only.  A table of one trade
  without contract size has one closed and one open trade.
\<close>

theorem total_closed_counts_open_rows:
  "total_closed_trades (DataFrame (Table [(Pos 0, (hd two_winners) \<lparr> contract := NaN \<rparr>)])) = Inr 1 \<and>
   total_open_trades (DataFrame (Table [(Pos 0, (hd two_winners) \<lparr> contract := NaN \<rparr>)])) = Inr 1"
  by (simp add: total_closed_trades_def total_open_trades_def isna_def frame_defs sample_defs)

section \<open>Properties of the monthly partitioning\<close>

subsection \<open>The Net Profit of the monthly rows\<close>

lemma traverse_eq_Inr:
  "traverse f xs = Inr ys \<longleftrightarrow> list_all2 (\<lambda>x y. f x = Inr y) xs ys"
proof (induction xs arbitrary: ys)
  case Nil
  show ?case by auto
next
  case (Cons x xs)
  show ?case
  proof (cases "f x")
    case (Inl e)
    then show ?thesis by (auto simp: list_all2_Cons1)
  next
    case (Inr y)
    show ?thesis
    proof (cases "traverse f xs")
      case (Inl e)
      with Inr Cons.IH show ?thesis by (auto simp: list_all2_Cons1)
    next
      case inr: (Inr zs)
      with Inr Cons.IH show ?thesis by (auto simp: list_all2_Cons1)
    qed
  qed
qed

lemma traverse_Cons_Inr:
  "traverse f (x # xs) = Inr zs \<longleftrightarrow> (\<exists>y ys. f x = Inr y \<and> traverse f xs = Inr ys \<and> zs = y # ys)"
  by (auto split: sum.splits)

lemma traverse_map_Inr: "traverse (\<lambda>x. Inr (g x)) xs = Inr (map g xs)"
  by (induction xs) simp_all

lemma net_profit_DataFrame:
  "net_profit (DataFrame fr) = Inr x \<Longrightarrow> x = Fin (sum_list (present (map profit (rows fr))))"
  by (cases fr) (simp_all add: net_profit_def column_def rows_def sum_skipna_def comp_def)

lemma performance_summary_net_profit:
  assumes "performance_summary trades = Inr s"
  shows "\<exists>x. net_profit trades = Inr x \<and> map_of s ''Net Profit'' = Some (Float x)"
proof -
  obtain data where d: "traverse (\<lambda>m. m trades) metrics = Inr data" and s: "s = zip index data"
    using assms by (auto simp: performance_summary_def bind_eq_Inr)
  obtain rest where m: "metrics = as_float net_profit # rest"
    by (simp add: metrics_def)
  obtain irest where i: "index = ''Net Profit'' # irest"
    by (simp add: index_def)
  from d have "list_all2 (\<lambda>m y. m trades = Inr y) (as_float net_profit # rest) data"
    unfolding m by (simp only: traverse_eq_Inr)
  then obtain y ys where y: "as_float net_profit trades = Inr y" and data: "data = y # ys"
    by (auto simp: list_all2_Cons1)
  from y obtain x where x: "net_profit trades = Inr x" "y = Float x"
    by (auto simp: as_float_def bind_eq_Inr)
  show ?thesis using x unfolding s data i by simp
qed


lemma present_sum_conv:
  "sum_list (present (map g ys)) = sum_list (map (\<lambda>y. case g y of Val v \<Rightarrow> v | _ \<Rightarrow> 0) ys)"
proof (induction ys)
  case Nil
  show ?case by simp
next
  case (Cons a ys)
  then show ?case by (cases "g a") simp_all
qed

lemma sum_list_delta:
  "distinct ks \<Longrightarrow> k0 \<in> set ks \<Longrightarrow> sum_list (map (\<lambda>k. if k0 = k then c else (0::rat)) ks) = c"
proof (induction ks)
  case Nil
  then show ?case by simp
next
  case (Cons k ks)
  show ?case
  proof (cases "k0 = k")
    case True
    with Cons.prems have "k0 \<notin> set ks" by simp
    then have "sum_list (map (\<lambda>k. if k0 = k then c else 0) ks) = 0"
      by (induction ks) auto
    with True show ?thesis by simp
  next
    case False
    with Cons show ?thesis by simp
  qed
qed

lemma sum_partition:
  fixes f :: "'a \<Rightarrow> rat"
  assumes "distinct ks" and "\<forall>x\<in>set xs. key x \<in> set ks"
  shows "sum_list (map (\<lambda>k. sum_list (map f (filter (\<lambda>x. key x = k) xs))) ks) = sum_list (map f xs)"
  using assms(2)
proof (induction xs)
  case Nil
  show ?case by simp
next
  case (Cons a xs)
  have "sum_list (map (\<lambda>k. sum_list (map f (filter (\<lambda>x. key x = k) (a # xs)))) ks) =
        sum_list (map (\<lambda>k. (if key a = k then f a else 0) +
                            sum_list (map f (filter (\<lambda>x. key x = k) xs))) ks)"
    by (rule arg_cong[where f = sum_list]) auto
  also have "\<dots> = sum_list (map (\<lambda>k. if key a = k then f a else 0) ks) +
                   sum_list (map (\<lambda>k. sum_list (map f (filter (\<lambda>x. key x = k) xs))) ks)"
    by (simp add: sum_list_addf)
  also have "\<dots> = f a + sum_list (map f xs)"
    using Cons assms(1) by (simp add: sum_list_delta)
  finally show ?case by simp
qed

lemma sum_list_insort_key:
  fixes f :: "'a \<Rightarrow> rat"
  shows "sum_list (map f (insort_key k x xs)) = f x + sum_list (map f xs)"
  by (induction xs) simp_all

lemma sum_list_sort_key:
  fixes f :: "'a \<Rightarrow> rat"
  shows "sum_list (map f (sort_key k xs)) = sum_list (map f xs)"
  by (induction xs) (simp_all add: sum_list_insort_key)

lemma sorted_hd_le:
  "sorted (map f xs) \<Longrightarrow> x \<in> set xs \<Longrightarrow> f (hd xs) \<le> f x"
  by (cases xs) auto

lemma sorted_le_last:
  "sorted (map f xs) \<Longrightarrow> x \<in> set xs \<Longrightarrow> f x \<le> f (last xs)"
proof (induction xs)
  case Nil
  then show ?case by simp
next
  case (Cons a xs)
  then show ?case by (cases xs) auto
qed

lemma chrono_month_no: "chrono a \<le> chrono b \<Longrightarrow> month_no a \<le> month_no b"
  by (auto simp: chrono_def less_eq_prod_def)


lemma traverse_stamp:
  "traverse (\<lambda>r. bind (stamp (fst r)) (\<lambda>t. Inr (t, r)))
     (map (\<lambda>r. (Stamp (entry_date (snd r)), snd r)) rs) =
   Inr (map (\<lambda>r. (entry_date (snd r), (Stamp (entry_date (snd r)), snd r))) rs)"
  by (induction rs) (simp_all add: stamp_def)

lemma month_rows_all:
  assumes "month_rows False g = Inr r"
  shows "\<exists>p. r = [(strftime_Ymd (fst g), p)] \<and> performance_summary (DataFrame (snd g)) = Inr p"
  using assms by (auto simp: month_rows_def Let_def bind_eq_Inr)

lemma month_rows_net_profit:
  assumes "traverse (month_rows False) gs = Inr rss"
  shows "map (\<lambda>row. map_of (snd row) ''Net Profit'') (concat rss) =
         map (\<lambda>g. Some (Float (Fin (sum_list (present (map profit (rows (snd g)))))))) gs"
  using assms
proof (induction gs arbitrary: rss)
  case Nil
  then show ?case by simp
next
  case (Cons g gs)
  from Cons.prems obtain r rs' where r: "month_rows False g = Inr r"
    and rs': "traverse (month_rows False) gs = Inr rs'" and rss: "rss = r # rs'"
    unfolding traverse_Cons_Inr by blast
  from month_rows_all[OF r] obtain p where p: "r = [(strftime_Ymd (fst g), p)]"
    "performance_summary (DataFrame (snd g)) = Inr p" by blast
  from performance_summary_net_profit[OF p(2)] obtain x where
    x: "net_profit (DataFrame (snd g)) = Inr x" "map_of p ''Net Profit'' = Some (Float x)"
    by blast
  from net_profit_DataFrame[OF x(1)] x(2) p(1) Cons.IH[OF rs'] rss
  show ?case by simp
qed

text \<open>
  Whenever a table is returned, its Net Profit entries are finite and add up to the Net
  Profit of the whole collection.
\<close>

lemma monthly_net_profit_partition:
  assumes "snd (monthly_performance trades False) = Inr tbl"
  shows "\<exists>xs. map (\<lambda>row. map_of (snd row) ''Net Profit'') tbl = map (\<lambda>x. Some (Float (Fin x))) xs \<and>
           net_profit trades = Inr (Fin (sum_list xs)) \<and>
           (\<forall>s. performance_summary trades = Inr s \<longrightarrow>
                map_of s ''Net Profit'' = Some (Float (Fin (sum_list xs))))"
proof -
  obtain rs where rs: "as_frame trades = Table rs"
    using assms by (cases "as_frame trades") (simp_all add: monthly_performance_def set_index_def)
  define keyed where
    "keyed = map (\<lambda>r. (entry_date (snd r), (Stamp (entry_date (snd r)), snd r))) rs"
  define sorted where "sorted = sort_key (\<lambda>p. chrono (fst p)) keyed"
  define G where "G = (\<lambda>k. (month_end k,
      Table (map snd (filter (\<lambda>p. month_no (fst p) = k) sorted))))"
  define lo where "lo = month_no (fst (hd sorted))"
  define hi where "hi = month_no (fst (last sorted))"
  define gs where "gs = (if sorted = [] then [] else map G [lo..hi])"
  define F where "F = (\<lambda>p::timestamp \<times> label \<times> Trade.
      case profit (snd (snd p)) of Val v \<Rightarrow> v | _ \<Rightarrow> (0::rat))"
  have gm: "groupby_month (Table (map (\<lambda>r. (Stamp (entry_date (snd r)), snd r)) rs)) = Inr gs"
    by (simp add: groupby_month_def traverse_stamp Let_def gs_def G_def lo_def hi_def
        sorted_def keyed_def)
  from assms obtain rss where rss: "traverse (month_rows False) gs = Inr rss"
    and tbl: "tbl = concat rss"
    by (auto simp: monthly_performance_def set_index_def rs gm bind_eq_Inr)
  define xs where "xs = map (\<lambda>g. sum_list (present (map profit (rows (snd g))))) gs"
  have entries: "map (\<lambda>row. map_of (snd row) ''Net Profit'') tbl = map (\<lambda>x. Some (Float (Fin x))) xs"
    using month_rows_net_profit[OF rss] by (simp add: tbl xs_def comp_def)
  have group_sum: "sum_list (present (map profit (rows (snd (G k))))) =
      sum_list (map F (filter (\<lambda>p. month_no (fst p) = k) sorted))" for k
    by (simp add: G_def rows_def present_sum_conv F_def comp_def)
  have total: "sum_list xs = sum_list (present (map (\<lambda>r. profit (snd r)) rs))"
  proof (cases "sorted = []")
    case True
    then have "length keyed = 0" using length_sort[of "\<lambda>p. chrono (fst p)" keyed]
      by (simp add: sorted_def)
    then have "keyed = []" by simp
    then have "rs = []" by (simp add: keyed_def)
    with True show ?thesis by (simp add: xs_def gs_def)
  next
    case False
    have srt: "List.sorted (map (\<lambda>p. chrono (fst p)) sorted)"
      by (simp add: sorted_def)
    have cover: "\<forall>p\<in>set sorted. month_no (fst p) \<in> set [lo..hi]"
    proof
      fix p assume p: "p \<in> set sorted"
      have "month_no (fst (hd sorted)) \<le> month_no (fst p)"
        using sorted_hd_le[OF srt p] by (rule chrono_month_no)
      moreover have "month_no (fst p) \<le> month_no (fst (last sorted))"
        using sorted_le_last[OF srt p] by (rule chrono_month_no)
      ultimately show "month_no (fst p) \<in> set [lo..hi]" by (simp add: lo_def hi_def)
    qed
    have "sum_list xs = sum_list (map (\<lambda>k. sum_list (map F (filter (\<lambda>p. month_no (fst p) = k) sorted))) [lo..hi])"
      using False by (simp add: xs_def gs_def comp_def group_sum)
    also have "\<dots> = sum_list (map F sorted)"
      using cover by (intro sum_partition[where key = "\<lambda>p. month_no (fst p)"]) simp_all
    also have "\<dots> = sum_list (map F keyed)"
      by (simp add: sorted_def sum_list_sort_key)
    also have "\<dots> = sum_list (present (map (\<lambda>r. profit (snd r)) rs))"
      by (simp add: keyed_def F_def comp_def present_sum_conv)
    finally show ?thesis .
  qed
  have np: "net_profit trades = Inr (Fin (sum_list xs))"
    using net_profit_Table[OF rs] total by simp
  have "map_of s ''Net Profit'' = Some (Float (Fin (sum_list xs)))"
    if "performance_summary trades = Inr s" for s
    using performance_summary_net_profit[OF that] np by auto
  with entries np show ?thesis by blast
qed

subsection \<open>Empty buckets\<close>

text \<open>
  C8.  The claim: the table has rows only for the months that hold a trade, and with
  long/short separation each such month contributes three rows.  The iteration of the
  monthly grouper also yields the bins that hold no row, and the loop summarises each
  bin and each direction of it without looking whether it is empty.  With trades in
  January and March the empty February bin raises IndexError; with separation, a month
  whose only trade is long raises IndexError at its empty short part.  No table is
  returned in either case.
\<close>

theorem monthly_performance_empty_bucket:
  "snd (monthly_performance (PyList gap_trades) False) = Inl IndexError \<and>
   snd (monthly_performance (PyList [hd two_winners]) True) = Inl IndexError \<and>
   snd (monthly_performance (PyList [hd two_winners]) False) \<noteq> Inl IndexError"
  by code_simp

end
